theory Spec2Isabelle
  imports Main "HOL-Library.AList"
begin

section \<open>LAMMPS workflow assembly (atomate/lammps/workflows/core.py)\<close>

text \<open>
  The module builds task graphs (workflows) out of task nodes (fireworks). Two of its
  functions are embedded here: \<open>get_wf_from_input_template\<close>, which fans a sequence of
  settings dictionaries out into independent nodes, and \<open>get_packmol_wf\<close>, which chains
  a packing node and a force-field simulation node.

  The first function writes into dictionaries that belong to its caller, so Python
  objects live in an explicit store and values refer to them by address.
\<close>

subsection \<open>Python values and the object store\<close>

type_synonym addr = nat

datatype pyval =
    PNone
  | PBool bool
  | PInt int
  | PStr string
  | PRef addr
  | PObj string

text \<open>
  \<open>PRef a\<close> is a reference to the dictionary or list stored at address \<open>a\<close>;
  \<open>PObj n\<close> is any other object (a class, a function, a molecule, a force field),
  known by a label only: it is truthy, has no \<open>get\<close> attribute, and is neither
  iterable nor subscriptable. Dictionary keys are strings (parameter names);
  a dictionary keeps its items in insertion order.
\<close>

datatype pyobj =
    ODict "(string \<times> pyval) list"
  | OList "pyval list"

type_synonym heap = "pyobj list"

datatype py_error =
    AttributeError
  | TypeError
  | KeyError string
  | NameError string

definition deref :: "heap \<Rightarrow> addr \<Rightarrow> pyobj option" where
  "deref h a = (if a < length h then Some (h ! a) else None)"

text \<open>Allocation appends to the store: the new object's address is the old length.\<close>

definition alloc :: "heap \<Rightarrow> pyobj \<Rightarrow> addr \<times> heap" where
  "alloc h ob = (length h, h @ [ob])"

text \<open>Truth value of an object, as \<open>or\<close> tests it.\<close>

fun truthy :: "heap \<Rightarrow> pyval \<Rightarrow> bool" where
  "truthy h PNone = False"
| "truthy h (PBool b) = b"
| "truthy h (PInt n) = (n \<noteq> 0)"
| "truthy h (PStr s) = (s \<noteq> [])"
| "truthy h (PRef a) =
     (case deref h a of
        Some (ODict d) \<Rightarrow> d \<noteq> []
      | Some (OList xs) \<Rightarrow> xs \<noteq> []
      | None \<Rightarrow> True)"
| "truthy h (PObj n) = True"

text \<open>\<open>isinstance(v, list)\<close>, giving the elements when it holds.\<close>

definition as_list :: "heap \<Rightarrow> pyval \<Rightarrow> pyval list option" where
  "as_list h v =
     (case v of
        PRef a \<Rightarrow> (case deref h a of Some (OList xs) \<Rightarrow> Some xs | _ \<Rightarrow> None)
      | _ \<Rightarrow> None)"

text \<open>The dictionary a value refers to, with its address, if it refers to one.\<close>

definition as_dict :: "heap \<Rightarrow> pyval \<Rightarrow> (addr \<times> (string \<times> pyval) list) option" where
  "as_dict h v =
     (case v of
        PRef a \<Rightarrow> (case deref h a of Some (ODict d) \<Rightarrow> Some (a, d) | _ \<Rightarrow> None)
      | _ \<Rightarrow> None)"

text \<open>\<open>d.get(k, default)\<close>, \<open>k in d\<close>, \<open>d[k] = v\<close> and \<open>d[k]\<close>.\<close>

definition dict_get :: "(string \<times> pyval) list \<Rightarrow> string \<Rightarrow> pyval \<Rightarrow> pyval" where
  "dict_get d k dflt = (case map_of d k of None \<Rightarrow> dflt | Some v \<Rightarrow> v)"

definition dict_contains :: "(string \<times> pyval) list \<Rightarrow> string \<Rightarrow> bool" where
  "dict_contains d k = (map_of d k \<noteq> None)"

definition dict_setitem :: "(string \<times> pyval) list \<Rightarrow> string \<Rightarrow> pyval \<Rightarrow> (string \<times> pyval) list" where
  "dict_setitem d k v = AList.update k v d"

definition dict_getitem :: "(string \<times> pyval) list \<Rightarrow> string \<Rightarrow> py_error + pyval" where
  "dict_getitem d k = (case map_of d k of None \<Rightarrow> Inl (KeyError k) | Some v \<Rightarrow> Inr v)"

subsection \<open>Task nodes and task graphs\<close>

text \<open>
  Modelled from the spec: the input-set builder \<open>LammpsInputSet.from_file\<close>, the three
  task node factories \<open>LammpsFW\<close>, \<open>PackmolFW\<close>, \<open>LammpsForceFieldFW\<close> and the graph
  container \<open>Workflow\<close> are not part of the module. The spec describes them as opaque
  constructors that accept the configuration and return a unit; they are embedded as
  free constructors that record every argument of the call, return normally and leave
  the store alone. A settings dictionary is passed by reference; the input set records
  the reference and, next to it, the items the dictionary holds at the moment of the
  call.
\<close>

datatype LammpsInputSet =
  LammpsInputSet_from_file
    (lis_name: pyval)
    (lis_input_template: pyval)
    (lis_user_settings: pyval)
    (lis_settings_seen: "(string \<times> pyval) list")
    (lis_lammps_data: pyval)
    (lis_data_filename: pyval)
    (lis_is_forcefield: pyval)

datatype Firework =
    LammpsFW
      (fw_lammps_input_set: LammpsInputSet)
      (fw_input_filename: pyval)
      (fw_data_filename: pyval)
      (fw_lammps_cmd: pyval)
      (fw_db_file: pyval)
      (fw_log_filename: pyval)
      (fw_dump_filename: pyval)
  | PackmolFW
      (pk_molecules: pyval)
      (pk_packing_config: pyval)
      (pk_tolerance: pyval)
      (pk_filetype: string)
      (pk_control_params: pyval)
      (pk_copy_to_current_on_exit: bool)
      (pk_output_file: string)
      (pk_site_property: pyval)
  | LammpsForceFieldFW
      (ff_input_file: pyval)
      (ff_data_source: string)
      (ff_molecules: pyval)
      (ff_mols_number: "pyval list")
      (ff_forcefield: pyval)
      (ff_user_settings: pyval)
      (ff_site_property: pyval)
      (ff_input_filename: string)
      (ff_lammps_cmd: pyval)
      (ff_db_file: pyval)
      (ff_parents: "entry list")
      (ff_log_filename: string)
      (ff_dump_filename: pyval)
and entry =
    FW Firework
  | PyTuple "entry list"

text \<open>
  An \<open>entry\<close> is what a Python list handed to \<open>Workflow\<close> or to \<open>parents=\<close> can hold
  in this module: a node, or a tuple of entries.

  Modelled from the spec: a node built without a \<open>parents\<close> argument has zero parent
  references.
\<close>

definition parents :: "Firework \<Rightarrow> entry list" where
  "parents fw =
     (case fw of
        LammpsForceFieldFW _ _ _ _ _ _ _ _ _ _ ps _ _ \<Rightarrow> ps
      | _ \<Rightarrow> [])"

definition is_node :: "entry \<Rightarrow> bool" where
  "is_node e = (case e of FW _ \<Rightarrow> True | PyTuple _ \<Rightarrow> False)"

datatype Workflow =
  Workflow (fireworks: "entry list") (workflow_name: "pyval option")

subsection \<open>\<open>get_wf_from_input_template\<close>\<close>

text \<open>
  One pass of the loop body (lines 49 to 63) for the element \<open>settings\<close>. Calling
  \<open>settings.get\<close> on anything but a dictionary raises \<open>AttributeError\<close>.
\<close>

definition loop_body ::
  "pyval \<Rightarrow> pyval \<Rightarrow> pyval \<Rightarrow> pyval \<Rightarrow> pyval \<Rightarrow> pyval \<Rightarrow> pyval \<Rightarrow> pyval \<Rightarrow>
   pyval \<Rightarrow> heap \<Rightarrow> (py_error + Firework) \<times> heap" where
  "loop_body wf_name input_template_file lammps_data input_filename is_forcefield
             lammps_cmd dump_filenames db_file settings h =
     (case as_dict h settings of
        None \<Rightarrow> (Inl AttributeError, h)
      | Some (a, d) \<Rightarrow>
          let data_filename = dict_get d ''data_file'' (PStr ''lammps.data'');
              d' = (if \<not> dict_contains d ''log_file''
                    then dict_setitem d ''log_file'' (PStr ''log.lammps'') else d);
              h' = h[a := ODict d'];
              lammps_input_set =
                LammpsInputSet_from_file wf_name input_template_file settings d'
                  lammps_data data_filename is_forcefield
          in (case dict_getitem d' ''log_file'' of
                Inl e \<Rightarrow> (Inl e, h')
              | Inr log_filename \<Rightarrow>
                  (Inr (LammpsFW lammps_input_set input_filename data_filename
                          lammps_cmd db_file log_filename dump_filenames), h')))"

text \<open>The \<open>for\<close> loop: \<open>fws\<close> is the list built so far, an exception ends the loop.\<close>

fun for_settings ::
  "pyval \<Rightarrow> pyval \<Rightarrow> pyval \<Rightarrow> pyval \<Rightarrow> pyval \<Rightarrow> pyval \<Rightarrow> pyval \<Rightarrow> pyval \<Rightarrow>
   pyval list \<Rightarrow> entry list \<Rightarrow> heap \<Rightarrow> (py_error + entry list) \<times> heap" where
  "for_settings wf_name input_template_file lammps_data input_filename is_forcefield
                lammps_cmd dump_filenames db_file [] fws h = (Inr fws, h)"
| "for_settings wf_name input_template_file lammps_data input_filename is_forcefield
                lammps_cmd dump_filenames db_file (settings # rest) fws h =
     (case loop_body wf_name input_template_file lammps_data input_filename is_forcefield
                     lammps_cmd dump_filenames db_file settings h of
        (Inl e, h') \<Rightarrow> (Inl e, h')
      | (Inr fw, h') \<Rightarrow>
          for_settings wf_name input_template_file lammps_data input_filename
            is_forcefield lammps_cmd dump_filenames db_file rest (fws @ [FW fw]) h')"

text \<open>
  Line 43, \<open>user_settings or {}\<close>: a falsy argument is replaced by a new empty
  dictionary. Line 44: anything that is not a list is wrapped into a one-element list.
  The function returns the graph (or the exception) together with the store it leaves.
\<close>

definition or_empty_dict :: "pyval \<Rightarrow> heap \<Rightarrow> pyval \<times> heap" where
  "or_empty_dict user_settings h =
     (if truthy h user_settings then (user_settings, h)
      else (let (a, h') = alloc h (ODict []) in (PRef a, h')))"

definition listify :: "pyval \<Rightarrow> heap \<Rightarrow> pyval list" where
  "listify user_settings h =
     (case as_list h user_settings of Some xs \<Rightarrow> xs | None \<Rightarrow> [user_settings])"

definition get_wf_from_input_template ::
  "pyval \<Rightarrow> pyval \<Rightarrow> pyval \<Rightarrow> pyval \<Rightarrow> pyval \<Rightarrow> pyval \<Rightarrow> pyval \<Rightarrow> pyval \<Rightarrow> pyval \<Rightarrow>
   heap \<Rightarrow> (py_error + Workflow) \<times> heap" where
  "get_wf_from_input_template input_template_file user_settings lammps_data input_filename
       is_forcefield lammps_cmd dump_filenames db_file name h =
     (let wf_name = name;
          (user_settings', h') = or_empty_dict user_settings h;
          user_settings'' = listify user_settings' h'
      in (case for_settings wf_name input_template_file lammps_data input_filename
                 is_forcefield lammps_cmd dump_filenames db_file user_settings'' [] h' of
            (Inl e, h'') \<Rightarrow> (Inl e, h'')
          | (Inr fws, h'') \<Rightarrow> (Inr (Workflow fws (Some name)), h'')))"

text \<open>A call that leaves every optional parameter at its declared default.\<close>

definition template_wf_defaults :: "pyval \<Rightarrow> pyval \<Rightarrow> heap \<Rightarrow> (py_error + Workflow) \<times> heap" where
  "template_wf_defaults input_template_file user_settings h =
     get_wf_from_input_template input_template_file user_settings PNone (PStr ''lammps.in'')
       (PBool False) (PStr ''lammps'') PNone PNone (PStr ''LAMMPS template Wflow'') h"

subsection \<open>\<open>get_packmol_wf\<close>\<close>

text \<open>Iterating a value: a list gives its elements, a dictionary its keys, a string
  its characters; nothing else here is iterable.\<close>

definition py_iter :: "heap \<Rightarrow> pyval \<Rightarrow> py_error + pyval list" where
  "py_iter h v =
     (case v of
        PRef a \<Rightarrow>
          (case deref h a of
             Some (OList xs) \<Rightarrow> Inr xs
           | Some (ODict d) \<Rightarrow> Inr (map (\<lambda>kv. PStr (fst kv)) d)
           | None \<Rightarrow> Inl TypeError)
      | PStr s \<Rightarrow> Inr (map (\<lambda>c. PStr [c]) s)
      | _ \<Rightarrow> Inl TypeError)"

text \<open>\<open>v[k]\<close> for a string key \<open>k\<close>: only a dictionary accepts it.\<close>

definition subscript :: "heap \<Rightarrow> pyval \<Rightarrow> string \<Rightarrow> py_error + pyval" where
  "subscript h v k =
     (case as_dict h v of
        Some (a, d) \<Rightarrow> dict_getitem d k
      | None \<Rightarrow> Inl TypeError)"

text \<open>Line 74, the comprehension \<open>[mol_config["number"] for mol_config in ...]\<close>,
  over the elements the iteration yields.\<close>

fun numbers_of :: "heap \<Rightarrow> pyval list \<Rightarrow> py_error + pyval list" where
  "numbers_of h [] = Inr []"
| "numbers_of h (mol_config # rest) =
     (case subscript h mol_config ''number'' of
        Inl e \<Rightarrow> Inl e
      | Inr n \<Rightarrow>
          (case numbers_of h rest of
             Inl e \<Rightarrow> Inl e
           | Inr ns \<Rightarrow> Inr (n # ns)))"

definition mols_number :: "heap \<Rightarrow> pyval \<Rightarrow> py_error + pyval list" where
  "mols_number h packing_config =
     (case py_iter h packing_config of
        Inl e \<Rightarrow> Inl e
      | Inr mol_configs \<Rightarrow> numbers_of h mol_configs)"

text \<open>
  The call on lines 80 to 84 gives the force-field simulation factory five positional
  arguments and eight keyword arguments. The keyword arguments are written from the
  function's parameters, the local \<open>fw_packmol\<close> and two string literals; they are
  collected here as the source lists them. \<open>LammpsForceFieldFW_call\<close> applies the
  factory to the positional arguments and the keywords.
\<close>

datatype force_field_keywords =
  ForceFieldKeywords
    (kw_user_settings: pyval)
    (kw_site_property: pyval)
    (kw_input_filename: string)
    (kw_lammps_cmd: pyval)
    (kw_db_file: pyval)
    (kw_parents: "entry list")
    (kw_log_filename: string)
    (kw_dump_filename: pyval)

definition fw_lammps_keywords ::
  "pyval \<Rightarrow> pyval \<Rightarrow> pyval \<Rightarrow> pyval \<Rightarrow> entry \<Rightarrow> pyval \<Rightarrow> force_field_keywords" where
  "fw_lammps_keywords user_settings site_property lammps_cmd db_file fw_packmol
       dump_filenames =
     ForceFieldKeywords user_settings site_property ''lammps.in'' lammps_cmd db_file
       [fw_packmol] ''lammps.log'' dump_filenames"

definition LammpsForceFieldFW_call ::
  "pyval \<Rightarrow> string \<Rightarrow> pyval \<Rightarrow> pyval list \<Rightarrow> pyval \<Rightarrow> force_field_keywords \<Rightarrow> Firework" where
  "LammpsForceFieldFW_call input_file data_source molecules counts forcefield kw =
     LammpsForceFieldFW input_file data_source molecules counts forcefield
       (kw_user_settings kw) (kw_site_property kw) (kw_input_filename kw)
       (kw_lammps_cmd kw) (kw_db_file kw) (kw_parents kw) (kw_log_filename kw)
       (kw_dump_filename kw)"

text \<open>
  The body of \<open>get_packmol_wf\<close> reads the name \<open>forcefield\<close>, which is neither a
  parameter nor a local variable, so Python looks it up in the module's global scope
  when the call on line 80 evaluates its positional arguments; an unbound name raises
  \<open>NameError\<close>. The scope is a parameter of the embedding. The assignment on lines 76
  to 78 ends in a comma, so \<open>fw_packmol\<close> is a one-element tuple holding the packing
  node. The parameters \<open>force_field\<close>, \<open>box_size\<close> and \<open>name\<close> are never read. The
  file type is a string.
\<close>

type_synonym scope = "string \<Rightarrow> pyval option"

definition get_packmol_wf_scope ::
  "scope \<Rightarrow> pyval \<Rightarrow> pyval \<Rightarrow> pyval \<Rightarrow> pyval \<Rightarrow> pyval \<Rightarrow> pyval \<Rightarrow> pyval \<Rightarrow> pyval \<Rightarrow>
   string \<Rightarrow> pyval \<Rightarrow> pyval \<Rightarrow> pyval \<Rightarrow> pyval \<Rightarrow> pyval \<Rightarrow> heap \<Rightarrow> py_error + Workflow" where
  "get_packmol_wf_scope globals input_file user_settings molecules packing_config
       force_field box_size site_property tolerance filetype control_params lammps_cmd
       dump_filenames db_file name h =
     (let packmol_output_file = ''packed.'' @ filetype
      in (case mols_number h packing_config of
            Inl e \<Rightarrow> Inl e
          | Inr mols_number' \<Rightarrow>
              let fw_packmol =
                    PyTuple [FW (PackmolFW molecules packing_config tolerance filetype
                                   control_params True packmol_output_file site_property)]
              in (case globals ''forcefield'' of
                    None \<Rightarrow> Inl (NameError ''forcefield'')
                  | Some forcefield \<Rightarrow>
                      let fw_lammps =
                            FW (LammpsForceFieldFW_call input_file packmol_output_file
                                  molecules mols_number' forcefield
                                  (fw_lammps_keywords user_settings site_property lammps_cmd
                                     db_file fw_packmol dump_filenames))
                      in Inr (Workflow [fw_packmol, fw_lammps] None))))"

text \<open>The names the module binds at top level: its imports, its two string
  constants and its three functions.\<close>

definition module_globals :: scope where
  "module_globals =
     map_of
       [(''division'', PObj ''__future__.division''),
        (''print_function'', PObj ''__future__.print_function''),
        (''unicode_literals'', PObj ''__future__.unicode_literals''),
        (''absolute_import'', PObj ''__future__.absolute_import''),
        (''Workflow'', PObj ''fireworks.Workflow''),
        (''LammpsInputSet'', PObj ''pymatgen.io.lammps.sets.LammpsInputSet''),
        (''LammpsFW'', PObj ''atomate.lammps.fireworks.core.LammpsFW''),
        (''PackmolFW'', PObj ''atomate.lammps.fireworks.core.PackmolFW''),
        (''LammpsForceFieldFW'', PObj ''atomate.lammps.fireworks.core.LammpsForceFieldFW''),
        (''__author__'', PStr ''Kiran Mathew''),
        (''__email__'', PStr ''kmathew@lbl.gov''),
        (''get_wf_from_input_template'', PObj ''get_wf_from_input_template''),
        (''get_packmol_wf'', PObj ''get_packmol_wf''),
        (''get_wf'', PObj ''get_wf'')]"

definition get_packmol_wf ::
  "pyval \<Rightarrow> pyval \<Rightarrow> pyval \<Rightarrow> pyval \<Rightarrow> pyval \<Rightarrow> pyval \<Rightarrow> pyval \<Rightarrow> pyval \<Rightarrow>
   string \<Rightarrow> pyval \<Rightarrow> pyval \<Rightarrow> pyval \<Rightarrow> pyval \<Rightarrow> pyval \<Rightarrow> heap \<Rightarrow> py_error + Workflow" where
  "get_packmol_wf = get_packmol_wf_scope module_globals"

section \<open>Properties\<close>

subsection \<open>Notions used in the statements\<close>

text \<open>A packing entry: a reference to a dictionary that has a \<open>number\<close> item.\<close>

definition packing_entry :: "heap \<Rightarrow> pyval \<Rightarrow> bool" where
  "packing_entry h v =
     (case as_dict h v of Some (a, d) \<Rightarrow> dict_contains d ''number'' | None \<Rightarrow> False)"

definition number_field :: "heap \<Rightarrow> pyval \<Rightarrow> pyval" where
  "number_field h v =
     (case as_dict h v of Some (a, d) \<Rightarrow> dict_get d ''number'' PNone | None \<Rightarrow> PNone)"

text \<open>A run configuration: a reference to a dictionary; \<open>dict_of\<close> gives its items.\<close>

definition is_dict :: "heap \<Rightarrow> pyval \<Rightarrow> bool" where
  "is_dict h v = (as_dict h v \<noteq> None)"

definition dict_of :: "heap \<Rightarrow> pyval \<Rightarrow> (string \<times> pyval) list" where
  "dict_of h v = (case as_dict h v of Some (a, d) \<Rightarrow> d | None \<Rightarrow> [])"

text \<open>The items of a configuration once the default log file name is in place.\<close>

definition with_log_file :: "(string \<times> pyval) list \<Rightarrow> (string \<times> pyval) list" where
  "with_log_file d =
     (if dict_contains d ''log_file'' then d else d @ [(''log_file'', PStr ''log.lammps'')])"

text \<open>The node expected for the configuration \<open>settings\<close> whose items are \<open>d\<close> when
  the call starts.\<close>

definition settings_node ::
  "pyval \<Rightarrow> pyval \<Rightarrow> pyval \<Rightarrow> pyval \<Rightarrow> pyval \<Rightarrow> pyval \<Rightarrow> pyval \<Rightarrow> pyval \<Rightarrow>
   pyval \<Rightarrow> (string \<times> pyval) list \<Rightarrow> Firework" where
  "settings_node wf_name input_template_file lammps_data input_filename is_forcefield
       lammps_cmd dump_filenames db_file settings d =
     LammpsFW
       (LammpsInputSet_from_file wf_name input_template_file settings (with_log_file d)
          lammps_data (dict_get d ''data_file'' (PStr ''lammps.data'')) is_forcefield)
       input_filename (dict_get d ''data_file'' (PStr ''lammps.data'')) lammps_cmd db_file
       (dict_get d ''log_file'' (PStr ''log.lammps'')) dump_filenames"

text \<open>How one stored object may differ after a call: a dictionary without
  \<open>log_file\<close> has received that item. \<open>frame h h'\<close>: the store \<open>h'\<close> keeps every object
  of \<open>h\<close> at its address, unchanged or changed in that one way.\<close>

definition log_file_added :: "pyobj \<Rightarrow> pyobj \<Rightarrow> bool" where
  "log_file_added ob ob' =
     (case ob of
        ODict d \<Rightarrow> \<not> dict_contains d ''log_file''
                   \<and> ob' = ODict (d @ [(''log_file'', PStr ''log.lammps'')])
      | OList xs \<Rightarrow> False)"

definition frame :: "heap \<Rightarrow> heap \<Rightarrow> bool" where
  "frame h h' =
     (length h \<le> length h'
      \<and> (\<forall>a < length h. h' ! a = h ! a \<or> log_file_added (h ! a) (h' ! a)))"

text \<open>The contents of a graph, without the identity of the settings objects: each
  input set keeps the items it has seen and drops the reference.\<close>

definition node_contents :: "entry \<Rightarrow> entry" where
  "node_contents e =
     (case e of
        FW (LammpsFW lis input_filename data_filename lammps_cmd db_file log_filename
              dump_filename) \<Rightarrow>
          FW (LammpsFW
                (case lis of
                   LammpsInputSet_from_file n t r seen ld df ff \<Rightarrow>
                     LammpsInputSet_from_file n t PNone seen ld df ff)
                input_filename data_filename lammps_cmd db_file log_filename dump_filename)
      | _ \<Rightarrow> e)"

definition graph_contents :: "Workflow \<Rightarrow> Workflow" where
  "graph_contents graph = Workflow (map node_contents (fireworks graph)) (workflow_name graph)"

text \<open>A store for examples: two packing entries, the packing configuration that
  lists them, and a list of two molecules.\<close>

definition packmol_example_store :: heap where
  "packmol_example_store =
     [ODict [(''number'', PInt 3)], ODict [(''number'', PInt 10)],
      OList [PRef 0, PRef 1], OList [PObj ''molecule_a'', PObj ''molecule_b'']]"

subsection \<open>Dictionaries and the store\<close>

lemma update_absent: "map_of d k = None \<Longrightarrow> AList.update k v d = d @ [(k, v)]"
  by (induction d) (auto split: if_splits)

lemma dict_setitem_absent:
  "\<not> dict_contains d k \<Longrightarrow> dict_setitem d k v = d @ [(k, v)]"
  by (simp add: dict_contains_def dict_setitem_def update_absent)

lemma with_log_file_getitem:
  "dict_getitem (with_log_file d) ''log_file'' = Inr (dict_get d ''log_file'' (PStr ''log.lammps''))"
  by (auto simp: with_log_file_def dict_getitem_def dict_get_def dict_contains_def
      split: option.splits)

lemma loop_body_dict:
  assumes "as_dict h settings = Some (a, d)"
  shows "loop_body wf_name input_template_file lammps_data input_filename is_forcefield
           lammps_cmd dump_filenames db_file settings h
         = (Inr (settings_node wf_name input_template_file lammps_data input_filename
                   is_forcefield lammps_cmd dump_filenames db_file settings d),
            h[a := ODict (with_log_file d)])"
proof -
  have d': "(if \<not> dict_contains d ''log_file''
             then dict_setitem d ''log_file'' (PStr ''log.lammps'') else d) = with_log_file d"
    by (simp add: with_log_file_def dict_setitem_absent)
  show ?thesis
    unfolding loop_body_def assms option.case prod.case Let_def d' with_log_file_getitem
      settings_node_def
    by simp
qed

lemma loop_body_no_dict:
  "as_dict h settings = None \<Longrightarrow>
   loop_body wf_name input_template_file lammps_data input_filename is_forcefield
     lammps_cmd dump_filenames db_file settings h = (Inl AttributeError, h)"
  by (simp add: loop_body_def)

lemma as_dictD: "as_dict h v = Some (a, d) \<Longrightarrow> v = PRef a \<and> a < length h \<and> h ! a = ODict d"
  by (auto simp: as_dict_def deref_def split: pyval.splits option.splits pyobj.splits if_splits)

lemma as_dictI: "a < length h \<Longrightarrow> h ! a = ODict d \<Longrightarrow> as_dict h (PRef a) = Some (a, d)"
  by (simp add: as_dict_def deref_def)

lemma frame_refl: "frame h h"
  by (simp add: frame_def)

lemma frame_trans:
  assumes "frame h1 h2" "frame h2 h3" shows "frame h1 h3"
  unfolding frame_def
proof (intro conjI allI impI)
  show "length h1 \<le> length h3" using assms by (simp add: frame_def)
next
  fix a assume a: "a < length h1"
  then have a2: "a < length h2" using assms(1) by (simp add: frame_def)
  from assms(1) a have s1: "h2 ! a = h1 ! a \<or> log_file_added (h1 ! a) (h2 ! a)"
    by (simp add: frame_def)
  from assms(2) a2 have s2: "h3 ! a = h2 ! a \<or> log_file_added (h2 ! a) (h3 ! a)"
    by (simp add: frame_def)
  from s1 s2 show "h3 ! a = h1 ! a \<or> log_file_added (h1 ! a) (h3 ! a)"
    by (auto simp: log_file_added_def dict_contains_def split: pyobj.splits)
qed

lemma frame_write:
  assumes "as_dict h settings = Some (a, d)"
  shows "frame h (h[a := ODict (with_log_file d)])"
  using as_dictD [OF assms]
  by (auto simp: frame_def nth_list_update log_file_added_def with_log_file_def)

lemma frame_alloc: "frame h (h @ [ob])"
  by (simp add: frame_def nth_append)

lemma frame_as_dict:
  assumes "frame h0 h" "as_dict h0 v = Some (a, d)"
  shows "\<exists>d'. as_dict h v = Some (a, d') \<and> (d' = d \<or> d' = with_log_file d)
              \<and> with_log_file d' = with_log_file d
              \<and> dict_get d' ''data_file'' dflt = dict_get d ''data_file'' dflt
              \<and> dict_get d' ''log_file'' (PStr ''log.lammps'')
                  = dict_get d ''log_file'' (PStr ''log.lammps'')"
proof -
  from as_dictD [OF assms(2)] have v: "v = PRef a" "a < length h0" "h0 ! a = ODict d"
    by simp_all
  from assms(1) v have a: "a < length h" and
    s: "h ! a = ODict d \<or> log_file_added (ODict d) (h ! a)"
    by (auto simp: frame_def)
  from s show ?thesis
  proof
    assume "h ! a = ODict d"
    with a v show ?thesis by (simp add: as_dictI)
  next
    assume "log_file_added (ODict d) (h ! a)"
    then have nd: "\<not> dict_contains d ''log_file''"
      and ha: "h ! a = ODict (d @ [(''log_file'', PStr ''log.lammps'')])"
      by (simp_all add: log_file_added_def)
    from nd have w: "with_log_file d = d @ [(''log_file'', PStr ''log.lammps'')]"
      by (simp add: with_log_file_def)
    have "as_dict h v = Some (a, with_log_file d)"
      using a ha v w by (simp add: as_dictI)
    moreover have "with_log_file (with_log_file d) = with_log_file d"
      by (simp add: with_log_file_def dict_contains_def)
    moreover have "dict_get (with_log_file d) ''data_file'' dflt = dict_get d ''data_file'' dflt"
      by (simp add: w dict_get_def map_add_def split: option.splits)
    moreover have "dict_get (with_log_file d) ''log_file'' (PStr ''log.lammps'')
                  = dict_get d ''log_file'' (PStr ''log.lammps'')"
      using nd by (simp add: w dict_get_def dict_contains_def map_add_def split: option.splits)
    ultimately show ?thesis by simp
  qed
qed

lemma settings_node_cong:
  assumes "with_log_file d' = with_log_file d"
    and "dict_get d' ''data_file'' (PStr ''lammps.data'') = dict_get d ''data_file'' (PStr ''lammps.data'')"
    and "dict_get d' ''log_file'' (PStr ''log.lammps'') = dict_get d ''log_file'' (PStr ''log.lammps'')"
  shows "settings_node wf_name input_template_file lammps_data input_filename is_forcefield
           lammps_cmd dump_filenames db_file settings d'
       = settings_node wf_name input_template_file lammps_data input_filename is_forcefield
           lammps_cmd dump_filenames db_file settings d"
  using assms by (simp add: settings_node_def)

lemma for_settings_dicts:
  assumes "frame h0 h" "\<forall>v \<in> set vs. is_dict h0 v"
  shows "\<exists>h'. for_settings wf_name input_template_file lammps_data input_filename is_forcefield
                lammps_cmd dump_filenames db_file vs fws h
             = (Inr (fws @ map (\<lambda>v. FW (settings_node wf_name input_template_file lammps_data
                                    input_filename is_forcefield lammps_cmd dump_filenames
                                    db_file v (dict_of h0 v))) vs), h')
             \<and> frame h h'
             \<and> length h' = length h
             \<and> (\<forall>v \<in> set vs. \<exists>a. as_dict h' v = Some (a, with_log_file (dict_of h0 v)))"
  using assms
proof (induction vs arbitrary: fws h)
  case Nil
  then show ?case by (simp add: frame_refl)
next
  case (Cons v vs)
  from Cons.prems(2) obtain a d where vd: "as_dict h0 v = Some (a, d)"
    by (auto simp: is_dict_def)
  then have dv: "dict_of h0 v = d" by (simp add: dict_of_def)
  from frame_as_dict [OF Cons.prems(1) vd, of "PStr ''lammps.data''"]
  obtain d' where d': "as_dict h v = Some (a, d')" "with_log_file d' = with_log_file d"
      "dict_get d' ''data_file'' (PStr ''lammps.data'') = dict_get d ''data_file'' (PStr ''lammps.data'')"
      "dict_get d' ''log_file'' (PStr ''log.lammps'') = dict_get d ''log_file'' (PStr ''log.lammps'')"
    by blast
  let ?h1 = "h[a := ODict (with_log_file d')]"
  have step: "loop_body wf_name input_template_file lammps_data input_filename is_forcefield
                lammps_cmd dump_filenames db_file v h
              = (Inr (settings_node wf_name input_template_file lammps_data input_filename
                   is_forcefield lammps_cmd dump_filenames db_file v d), ?h1)"
    using loop_body_dict [OF d'(1)] settings_node_cong [OF d'(2,3,4)] by simp
  have f1: "frame h0 ?h1"
    using frame_trans [OF Cons.prems(1) frame_write [OF d'(1)]] .
  from Cons.prems(2) have rest: "\<forall>v \<in> set vs. is_dict h0 v" by simp
  from Cons.IH [OF f1 rest, of "fws @ [FW (settings_node wf_name input_template_file
          lammps_data input_filename is_forcefield lammps_cmd dump_filenames db_file v d)]"]
  obtain h' where h': "for_settings wf_name input_template_file lammps_data input_filename
        is_forcefield lammps_cmd dump_filenames db_file vs
        (fws @ [FW (settings_node wf_name input_template_file
          lammps_data input_filename is_forcefield lammps_cmd dump_filenames db_file v d)]) ?h1
      = (Inr ((fws @ [FW (settings_node wf_name input_template_file
          lammps_data input_filename is_forcefield lammps_cmd dump_filenames db_file v d)])
          @ map (\<lambda>v. FW (settings_node wf_name input_template_file lammps_data
                                    input_filename is_forcefield lammps_cmd dump_filenames
                                    db_file v (dict_of h0 v))) vs), h')"
      "frame ?h1 h'" "length h' = length ?h1"
      "\<forall>v \<in> set vs. \<exists>a. as_dict h' v = Some (a, with_log_file (dict_of h0 v))"
    by blast
  have h1v: "as_dict ?h1 v = Some (a, with_log_file d)"
    using as_dictD [OF d'(1)] d'(2) by (simp add: as_dictI)
  have idem: "with_log_file (with_log_file d) = with_log_file d"
    by (simp add: with_log_file_def dict_contains_def)
  have va: "\<exists>a. as_dict h' v = Some (a, with_log_file (dict_of h0 v))"
    using frame_as_dict [OF h'(2) h1v, of PNone] idem dv by auto
  have fh: "frame h h'"
    using frame_trans [OF frame_write [OF d'(1)] h'(2)] .
  show ?case
    using step h' va dv fh by simp
qed

lemma loop_body_frame:
  "frame h (snd (loop_body wf_name input_template_file lammps_data input_filename
                   is_forcefield lammps_cmd dump_filenames db_file settings h))"
proof (cases "as_dict h settings")
  case None
  then show ?thesis by (simp add: loop_body_no_dict frame_refl)
next
  case (Some p)
  obtain a d where "p = (a, d)" by (cases p)
  with Some have ad: "as_dict h settings = Some (a, d)" by simp
  show ?thesis by (simp add: loop_body_dict [OF ad] frame_write [OF ad])
qed

lemma for_settings_frame:
  "frame h (snd (for_settings wf_name input_template_file lammps_data input_filename
                   is_forcefield lammps_cmd dump_filenames db_file vs fws h))"
proof (induction vs arbitrary: fws h)
  case Nil
  show ?case by (simp add: frame_refl)
next
  case (Cons v vs)
  obtain r h1 where lb: "loop_body wf_name input_template_file lammps_data input_filename
                   is_forcefield lammps_cmd dump_filenames db_file v h = (r, h1)"
    by (cases "loop_body wf_name input_template_file lammps_data input_filename
                   is_forcefield lammps_cmd dump_filenames db_file v h")
  have f1: "frame h h1"
    using loop_body_frame [of h wf_name input_template_file lammps_data input_filename
                   is_forcefield lammps_cmd dump_filenames db_file v] lb by simp
  show ?case
  proof (cases r)
    case (Inl e)
    with lb f1 show ?thesis by simp
  next
    case (Inr fw)
    with lb have "for_settings wf_name input_template_file lammps_data input_filename
                   is_forcefield lammps_cmd dump_filenames db_file (v # vs) fws h
        = for_settings wf_name input_template_file lammps_data input_filename
                   is_forcefield lammps_cmd dump_filenames db_file vs (fws @ [FW fw]) h1"
      by simp
    with frame_trans [OF f1 Cons.IH [of h1 "fws @ [FW fw]"]] show ?thesis by simp
  qed
qed

lemma or_empty_dict_frame: "frame h (snd (or_empty_dict user_settings h))"
  by (simp add: or_empty_dict_def alloc_def frame_refl frame_alloc)

lemma get_wf_frame:
  "frame h (snd (get_wf_from_input_template input_template_file user_settings lammps_data
                   input_filename is_forcefield lammps_cmd dump_filenames db_file name h))"
proof -
  obtain us1 h1 where o: "or_empty_dict user_settings h = (us1, h1)"
    by (cases "or_empty_dict user_settings h")
  then have f1: "frame h h1" using or_empty_dict_frame [of h user_settings] by simp
  let ?r = "for_settings name input_template_file lammps_data input_filename
              is_forcefield lammps_cmd dump_filenames db_file (listify us1 h1) [] h1"
  have f2: "frame h1 (snd ?r)" by (rule for_settings_frame)
  have "snd (get_wf_from_input_template input_template_file user_settings lammps_data
                   input_filename is_forcefield lammps_cmd dump_filenames db_file name h)
        = snd ?r"
    by (simp add: get_wf_from_input_template_def o split: prod.splits sum.splits)
  with frame_trans [OF f1 f2] show ?thesis by simp
qed

lemma get_wf_truthy:
  assumes "truthy h user_settings" "\<forall>v \<in> set (listify user_settings h). is_dict h v"
  shows "\<exists>h'. get_wf_from_input_template input_template_file user_settings lammps_data
                 input_filename is_forcefield lammps_cmd dump_filenames db_file name h
             = (Inr (Workflow
                  (map (\<lambda>v. FW (settings_node name input_template_file lammps_data
                                   input_filename is_forcefield lammps_cmd dump_filenames
                                   db_file v (dict_of h v))) (listify user_settings h))
                  (Some name)), h')
             \<and> frame h h' \<and> length h' = length h
             \<and> (\<forall>v \<in> set (listify user_settings h).
                   \<exists>a. as_dict h' v = Some (a, with_log_file (dict_of h v)))"
proof -
  have o: "or_empty_dict user_settings h = (user_settings, h)"
    using assms(1) by (simp add: or_empty_dict_def)
  from for_settings_dicts [OF frame_refl assms(2), of name input_template_file lammps_data
      input_filename is_forcefield lammps_cmd dump_filenames db_file "[]"]
  obtain h' where h': "for_settings name input_template_file lammps_data input_filename
        is_forcefield lammps_cmd dump_filenames db_file (listify user_settings h) [] h
      = (Inr ([] @ map (\<lambda>v. FW (settings_node name input_template_file lammps_data
                                   input_filename is_forcefield lammps_cmd dump_filenames
                                   db_file v (dict_of h v))) (listify user_settings h)), h')"
      "frame h h'" "length h' = length h"
      "\<forall>v \<in> set (listify user_settings h).
                   \<exists>a. as_dict h' v = Some (a, with_log_file (dict_of h v))"
    by blast
  show ?thesis
    using h' by (simp add: get_wf_from_input_template_def o)
qed

lemma get_wf_falsy:
  assumes "\<not> truthy h user_settings"
  shows "get_wf_from_input_template input_template_file user_settings lammps_data
           input_filename is_forcefield lammps_cmd dump_filenames db_file name h
       = (Inr (Workflow [FW (settings_node name input_template_file lammps_data
                               input_filename is_forcefield lammps_cmd dump_filenames
                               db_file (PRef (length h)) [])] (Some name)),
          h @ [ODict [(''log_file'', PStr ''log.lammps'')]])"
proof -
  let ?h1 = "h @ [ODict []]"
  have o: "or_empty_dict user_settings h = (PRef (length h), ?h1)"
    using assms by (simp add: or_empty_dict_def alloc_def)
  have ad: "as_dict ?h1 (PRef (length h)) = Some (length h, [])"
    by (simp add: as_dict_def deref_def)
  have l: "listify (PRef (length h)) ?h1 = [PRef (length h)]"
    by (simp add: listify_def as_list_def deref_def)
  have w: "with_log_file [] = [(''log_file'', PStr ''log.lammps'')]"
    by (simp add: with_log_file_def dict_contains_def)
  show ?thesis
    by (simp add: get_wf_from_input_template_def o l loop_body_dict [OF ad] w)
qed

subsection \<open>Fan-out from a template\<close>

lemmas template_eval =
  template_wf_defaults_def get_wf_from_input_template_def or_empty_dict_def alloc_def
  deref_def listify_def as_list_def loop_body_def as_dict_def dict_get_def
  dict_contains_def dict_setitem_def dict_getitem_def Let_def

text \<open>
  C1. When \<open>user_settings\<close> is a non-empty list of \<open>N\<close> configuration dictionaries,
  the call returns a graph with the supplied name and exactly \<open>N\<close> nodes; the \<open>i\<close>-th
  node is built for the \<open>i\<close>-th configuration of the list (its input set refers to
  that dictionary and its data file name is resolved from it), and no node has a
  parent.
\<close>
theorem template_wf_one_node_per_configuration:
  assumes "deref h l = Some (OList vs)"
    and "vs \<noteq> []"
    and "\<forall>v \<in> set vs. is_dict h v"
  shows "\<exists>fws h'.
           get_wf_from_input_template input_template_file (PRef l) lammps_data
             input_filename is_forcefield lammps_cmd dump_filenames db_file name h
           = (Inr (Workflow fws (Some name)), h')
         \<and> length fws = length vs
         \<and> (\<forall>i < length vs. \<exists>fw.
               fws ! i = FW fw
             \<and> lis_user_settings (fw_lammps_input_set fw) = vs ! i
             \<and> fw_data_filename fw = dict_get (dict_of h (vs ! i)) ''data_file'' (PStr ''lammps.data'')
             \<and> parents fw = [])"
proof -
  have t: "truthy h (PRef l)" using assms(1,2) by simp
  have ls: "listify (PRef l) h = vs"
    using assms(1) by (simp add: listify_def as_list_def)
  from get_wf_truthy [OF t, of input_template_file lammps_data input_filename is_forcefield
      lammps_cmd dump_filenames db_file name] assms(3) ls
  obtain h' where h': "get_wf_from_input_template input_template_file (PRef l) lammps_data
             input_filename is_forcefield lammps_cmd dump_filenames db_file name h
           = (Inr (Workflow
                  (map (\<lambda>v. FW (settings_node name input_template_file lammps_data
                                   input_filename is_forcefield lammps_cmd dump_filenames
                                   db_file v (dict_of h v))) vs)
                  (Some name)), h')"
    by auto
  show ?thesis
    unfolding h' by (simp add: settings_node_def parents_def)
qed

text \<open>Two configurations, the second naming its data file.\<close>
theorem template_wf_one_node_per_configuration_witness:
  "\<exists>fws h'.
     template_wf_defaults (PStr ''in.template'') (PRef 2)
       [ODict [], ODict [(''data_file'', PStr ''a.data'')], OList [PRef 0, PRef 1]]
     = (Inr (Workflow fws (Some (PStr ''LAMMPS template Wflow''))), h')
   \<and> length fws = 2
   \<and> (\<exists>fw. fws ! 1 = FW fw \<and> lis_user_settings (fw_lammps_input_set fw) = PRef 1
            \<and> fw_data_filename fw = PStr ''a.data'' \<and> parents fw = [])"
proof -
  let ?h = "[ODict [], ODict [(''data_file'', PStr ''a.data'')], OList [PRef 0, PRef 1]]"
  have l: "deref ?h 2 = Some (OList [PRef 0, PRef 1])" by (simp add: deref_def)
  have n: "[PRef 0, PRef 1] \<noteq> ([] :: pyval list)" by simp
  have d: "\<forall>v \<in> set [PRef 0, PRef 1]. is_dict ?h v"
    by (simp add: is_dict_def as_dict_def deref_def)
  have g: "dict_get (dict_of ?h (PRef 1)) ''data_file'' (PStr ''lammps.data'') = PStr ''a.data''"
    by (simp add: dict_of_def as_dict_def deref_def dict_get_def)
  from template_wf_one_node_per_configuration [OF l n d, of "PStr ''in.template''" PNone
      "PStr ''lammps.in''" "PBool False" "PStr ''lammps''" PNone PNone
      "PStr ''LAMMPS template Wflow''"]
  show ?thesis
    unfolding template_wf_defaults_def using g by fastforce
qed

text \<open>
  C5. For every falsy \<open>user_settings\<close> (\<open>None\<close>, an empty dictionary, an empty list,
  and also \<open>False\<close>, \<open>0\<close> and the empty string), line 43 replaces the argument by a
  new empty dictionary, line 44 wraps it into a one-element list, and the call returns
  a graph of exactly one node whose data file name is \<open>lammps.data\<close> and whose log
  file name is \<open>log.lammps\<close>.
\<close>
theorem falsy_settings_one_default_node:
  assumes "\<not> truthy h user_settings"
  shows "or_empty_dict user_settings h = (PRef (length h), h @ [ODict []])
       \<and> listify (PRef (length h)) (h @ [ODict []]) = [PRef (length h)]
       \<and> (\<exists>fw h'.
             get_wf_from_input_template input_template_file user_settings lammps_data
               input_filename is_forcefield lammps_cmd dump_filenames db_file name h
             = (Inr (Workflow [FW fw] (Some name)), h')
           \<and> fw_data_filename fw = PStr ''lammps.data''
           \<and> fw_log_filename fw = PStr ''log.lammps''
           \<and> lis_user_settings (fw_lammps_input_set fw) = PRef (length h))"
proof -
  have "or_empty_dict user_settings h = (PRef (length h), h @ [ODict []])"
    using assms by (simp add: or_empty_dict_def alloc_def)
  moreover have "listify (PRef (length h)) (h @ [ODict []]) = [PRef (length h)]"
    by (simp add: listify_def as_list_def deref_def)
  moreover have "fw_data_filename (settings_node name input_template_file lammps_data
        input_filename is_forcefield lammps_cmd dump_filenames db_file (PRef (length h)) [])
      = PStr ''lammps.data''"
    by (simp add: settings_node_def dict_get_def)
  moreover have "fw_log_filename (settings_node name input_template_file lammps_data
        input_filename is_forcefield lammps_cmd dump_filenames db_file (PRef (length h)) [])
      = PStr ''log.lammps''"
    by (simp add: settings_node_def dict_get_def)
  moreover have "lis_user_settings (fw_lammps_input_set (settings_node name
        input_template_file lammps_data input_filename is_forcefield lammps_cmd
        dump_filenames db_file (PRef (length h)) [])) = PRef (length h)"
    by (simp add: settings_node_def)
  ultimately show ?thesis
    using get_wf_falsy [OF assms] by blast
qed

text \<open>The three arguments the claim names: \<open>None\<close>, \<open>{}\<close> and \<open>[]\<close>.\<close>
theorem falsy_settings_one_default_node_witness:
  "(\<exists>fw h'. template_wf_defaults (PStr ''in.template'') PNone [] 
            = (Inr (Workflow [FW fw] (Some (PStr ''LAMMPS template Wflow''))), h')
          \<and> fw_data_filename fw = PStr ''lammps.data''
          \<and> fw_log_filename fw = PStr ''log.lammps'')
 \<and> (\<exists>fw h'. template_wf_defaults (PStr ''in.template'') (PRef 0) [ODict []]
            = (Inr (Workflow [FW fw] (Some (PStr ''LAMMPS template Wflow''))), h')
          \<and> fw_data_filename fw = PStr ''lammps.data''
          \<and> fw_log_filename fw = PStr ''log.lammps'')
 \<and> (\<exists>fw h'. template_wf_defaults (PStr ''in.template'') (PRef 0) [OList []]
            = (Inr (Workflow [FW fw] (Some (PStr ''LAMMPS template Wflow''))), h')
          \<and> fw_data_filename fw = PStr ''lammps.data''
          \<and> fw_log_filename fw = PStr ''log.lammps'')"
proof -
  have f1: "\<not> truthy [] PNone" by simp
  have f2: "\<not> truthy [ODict []] (PRef 0)" by (simp add: deref_def)
  have f3: "\<not> truthy [OList []] (PRef 0)" by (simp add: deref_def)
  note inst = falsy_settings_one_default_node [of _ _ "PStr ''in.template''" PNone
      "PStr ''lammps.in''" "PBool False" "PStr ''lammps''" PNone PNone
      "PStr ''LAMMPS template Wflow''"]
  have "\<exists>fw h'. template_wf_defaults (PStr ''in.template'') PNone []
            = (Inr (Workflow [FW fw] (Some (PStr ''LAMMPS template Wflow''))), h')
          \<and> fw_data_filename fw = PStr ''lammps.data''
          \<and> fw_log_filename fw = PStr ''log.lammps''"
    unfolding template_wf_defaults_def using inst [OF f1] by blast
  moreover have "\<exists>fw h'. template_wf_defaults (PStr ''in.template'') (PRef 0) [ODict []]
            = (Inr (Workflow [FW fw] (Some (PStr ''LAMMPS template Wflow''))), h')
          \<and> fw_data_filename fw = PStr ''lammps.data''
          \<and> fw_log_filename fw = PStr ''log.lammps''"
    unfolding template_wf_defaults_def using inst [OF f2] by blast
  moreover have "\<exists>fw h'. template_wf_defaults (PStr ''in.template'') (PRef 0) [OList []]
            = (Inr (Workflow [FW fw] (Some (PStr ''LAMMPS template Wflow''))), h')
          \<and> fw_data_filename fw = PStr ''lammps.data''
          \<and> fw_log_filename fw = PStr ''log.lammps''"
    unfolding template_wf_defaults_def using inst [OF f3] by blast
  ultimately show ?thesis by blast
qed

text \<open>
  C4 states that an empty list gives a graph without nodes. The empty list is falsy,
  so the call with \<open>[]\<close> returns a graph of one node.
\<close>
theorem empty_sequence_not_empty_graph:
  "template_wf_defaults (PStr ''in.template'') (PRef 0) [OList []]
   = (Inr (Workflow
        [FW (LammpsFW
               (LammpsInputSet_from_file (PStr ''LAMMPS template Wflow'')
                  (PStr ''in.template'') (PRef 1) [(''log_file'', PStr ''log.lammps'')]
                  PNone (PStr ''lammps.data'') (PBool False))
               (PStr ''lammps.in'') (PStr ''lammps.data'') (PStr ''lammps'') PNone
               (PStr ''log.lammps'') PNone)]
        (Some (PStr ''LAMMPS template Wflow''))),
      [OList [], ODict [(''log_file'', PStr ''log.lammps'')]])
 \<and> length (fireworks (Workflow
        [FW (LammpsFW
               (LammpsInputSet_from_file (PStr ''LAMMPS template Wflow'')
                  (PStr ''in.template'') (PRef 1) [(''log_file'', PStr ''log.lammps'')]
                  PNone (PStr ''lammps.data'') (PBool False))
               (PStr ''lammps.in'') (PStr ''lammps.data'') (PStr ''lammps'') PNone
               (PStr ''log.lammps'') PNone)]
        (Some (PStr ''LAMMPS template Wflow'')))) \<noteq> 0"
  by (simp add: template_eval)

text \<open>
  C4, amended. When \<open>user_settings\<close> is an empty list, no exception is raised; the
  list is replaced by a new empty dictionary, the loop runs once, and the returned
  graph holds exactly one node, without parents, with the data file name
  \<open>lammps.data\<close> and the log file name \<open>log.lammps\<close>. The new dictionary is the only
  change to the store.
\<close>
theorem empty_sequence_yields_default_node:
  assumes "deref h l = Some (OList [])"
  shows "\<exists>fw. get_wf_from_input_template input_template_file (PRef l) lammps_data
               input_filename is_forcefield lammps_cmd dump_filenames db_file name h
             = (Inr (Workflow [FW fw] (Some name)),
                h @ [ODict [(''log_file'', PStr ''log.lammps'')]])
           \<and> fw_data_filename fw = PStr ''lammps.data''
           \<and> fw_log_filename fw = PStr ''log.lammps''
           \<and> lis_user_settings (fw_lammps_input_set fw) = PRef (length h)
           \<and> lis_settings_seen (fw_lammps_input_set fw) = [(''log_file'', PStr ''log.lammps'')]
           \<and> parents fw = []"
proof -
  have f: "\<not> truthy h (PRef l)" using assms by simp
  show ?thesis
    unfolding get_wf_falsy [OF f]
    by (simp add: settings_node_def dict_get_def with_log_file_def dict_contains_def parents_def)
qed

theorem empty_sequence_yields_default_node_witness:
  "\<exists>fw. template_wf_defaults (PStr ''in.template'') (PRef 0) [OList []]
         = (Inr (Workflow [FW fw] (Some (PStr ''LAMMPS template Wflow''))),
            [OList [], ODict [(''log_file'', PStr ''log.lammps'')]])
       \<and> fw_data_filename fw = PStr ''lammps.data''
       \<and> fw_log_filename fw = PStr ''log.lammps''"
proof -
  have l: "deref [OList []] 0 = Some (OList [])" by (simp add: deref_def)
  show ?thesis
    unfolding template_wf_defaults_def
    using empty_sequence_yields_default_node [OF l, of "PStr ''in.template''" PNone
      "PStr ''lammps.in''" "PBool False" "PStr ''lammps''" PNone PNone
      "PStr ''LAMMPS template Wflow''"]
    by auto
qed

lemma get_wf_same_sequence:
  assumes "truthy h u1" "truthy h u2" "listify u1 h = listify u2 h"
  shows "get_wf_from_input_template input_template_file u1 lammps_data
           input_filename is_forcefield lammps_cmd dump_filenames db_file name h
       = get_wf_from_input_template input_template_file u2 lammps_data
           input_filename is_forcefield lammps_cmd dump_filenames db_file name h"
  using assms by (simp add: get_wf_from_input_template_def or_empty_dict_def)

lemma node_contents_settings_node:
  "node_contents (FW (settings_node wf_name input_template_file lammps_data input_filename
       is_forcefield lammps_cmd dump_filenames db_file r d))
   = FW (settings_node wf_name input_template_file lammps_data input_filename
       is_forcefield lammps_cmd dump_filenames db_file PNone d)"
  by (simp add: node_contents_def settings_node_def)

text \<open>
  C6. For a configuration dictionary \<open>m\<close> (at address \<open>a\<close>) and the one-element list
  \<open>[m]\<close> (at address \<open>l\<close>), the two calls both return a one-node graph, and the two
  graphs have the same contents. When \<open>m\<close> is not empty the two results, graph and
  store, are equal outright; when \<open>m\<close> is empty the node built from the bare \<open>m\<close>
  refers to a new dictionary instead of \<open>m\<close>, with the same items.
\<close>
theorem bare_mapping_same_as_singleton:
  assumes "deref h a = Some (ODict d)"
    and "deref h l = Some (OList [PRef a])"
  shows "\<exists>g g' h1 h2.
           get_wf_from_input_template input_template_file (PRef a) lammps_data
             input_filename is_forcefield lammps_cmd dump_filenames db_file name h = (Inr g, h1)
         \<and> get_wf_from_input_template input_template_file (PRef l) lammps_data
             input_filename is_forcefield lammps_cmd dump_filenames db_file name h = (Inr g', h2)
         \<and> length (fireworks g) = 1
         \<and> length (fireworks g') = 1
         \<and> graph_contents g = graph_contents g'
         \<and> (d \<noteq> [] \<longrightarrow> g = g' \<and> h1 = h2)"
proof -
  have tl: "truthy h (PRef l)" using assms(2) by simp
  have ll: "listify (PRef l) h = [PRef a]"
    using assms(2) by (simp add: listify_def as_list_def)
  have la: "listify (PRef a) h = [PRef a]"
    using assms(1) by (simp add: listify_def as_list_def)
  have ad: "as_dict h (PRef a) = Some (a, d)"
    using assms(1) by (simp add: as_dict_def)
  then have da: "dict_of h (PRef a) = d" and ia: "is_dict h (PRef a)"
    by (simp_all add: dict_of_def is_dict_def)
  from get_wf_truthy [OF tl, of input_template_file lammps_data input_filename
      is_forcefield lammps_cmd dump_filenames db_file name] ll ia da
  obtain h2 where c2: "get_wf_from_input_template input_template_file (PRef l) lammps_data
             input_filename is_forcefield lammps_cmd dump_filenames db_file name h
       = (Inr (Workflow [FW (settings_node name input_template_file lammps_data
                 input_filename is_forcefield lammps_cmd dump_filenames db_file (PRef a) d)]
               (Some name)), h2)"
    by auto
  show ?thesis
  proof (cases "d = []")
    case True
    then have fa: "\<not> truthy h (PRef a)" using assms(1) by simp
    show ?thesis
      unfolding c2 get_wf_falsy [OF fa]
      using True by (simp add: graph_contents_def node_contents_settings_node)
  next
    case False
    then have ta: "truthy h (PRef a)" using assms(1) by simp
    have "get_wf_from_input_template input_template_file (PRef a) lammps_data
             input_filename is_forcefield lammps_cmd dump_filenames db_file name h
        = get_wf_from_input_template input_template_file (PRef l) lammps_data
             input_filename is_forcefield lammps_cmd dump_filenames db_file name h"
      using get_wf_same_sequence [OF ta tl] la ll by simp
    then show ?thesis
      unfolding c2 by simp
  qed
qed

theorem bare_mapping_same_as_singleton_witness:
  "template_wf_defaults (PStr ''in.template'') (PRef 0)
     [ODict [(''data_file'', PStr ''a.data'')], OList [PRef 0]]
   = template_wf_defaults (PStr ''in.template'') (PRef 1)
     [ODict [(''data_file'', PStr ''a.data'')], OList [PRef 0]]"
proof -
  let ?h = "[ODict [(''data_file'', PStr ''a.data'')], OList [PRef 0]]"
  have a: "deref ?h 0 = Some (ODict [(''data_file'', PStr ''a.data'')])"
    by (simp add: deref_def)
  have l: "deref ?h 1 = Some (OList [PRef 0])"
    by (simp add: deref_def)
  show ?thesis
    unfolding template_wf_defaults_def
    using bare_mapping_same_as_singleton [OF a l, of "PStr ''in.template''" PNone
      "PStr ''lammps.in''" "PBool False" "PStr ''lammps''" PNone PNone
      "PStr ''LAMMPS template Wflow''"]
    by auto
qed

text \<open>
  C7 states that \<open>log_file\<close> is written into the caller's dictionary whenever the
  configuration lacks it. An empty dictionary passed bare lacks it, is falsy, and is
  replaced on line 43: after the call the caller's dictionary is still empty.
\<close>
theorem bare_empty_mapping_not_written:
  "deref (snd (template_wf_defaults (PStr ''in.template'') (PRef 0) [ODict []])) 0
     = Some (ODict [])
   \<and> \<not> dict_contains [] ''log_file''"
  by (simp add: template_eval)

text \<open>
  C7, amended. For every configuration the loop iterates over when \<open>user_settings\<close> is
  truthy (each element of a list argument, or a non-empty dictionary passed bare):
  without a \<open>data_file\<close> item the node's data file name is \<open>lammps.data\<close>, with one it
  is the item's value; without a \<open>log_file\<close> item the item \<open>log.lammps\<close> is appended
  to the caller's dictionary, at its own address, and the node's log file name is
  \<open>log.lammps\<close>; with one the dictionary is untouched and the node uses the item's
  value. The input set is built from the dictionary as it is after this step.
\<close>
theorem settings_defaults_resolved_in_place:
  assumes "truthy h user_settings"
    and "\<forall>v \<in> set (listify user_settings h). is_dict h v"
  shows "\<exists>fws h'.
           get_wf_from_input_template input_template_file user_settings lammps_data
             input_filename is_forcefield lammps_cmd dump_filenames db_file name h
           = (Inr (Workflow fws (Some name)), h')
         \<and> length fws = length (listify user_settings h)
         \<and> (\<forall>i < length (listify user_settings h). \<exists>fw a d d'.
               fws ! i = FW fw
             \<and> as_dict h (listify user_settings h ! i) = Some (a, d)
             \<and> as_dict h' (listify user_settings h ! i) = Some (a, d')
             \<and> lis_user_settings (fw_lammps_input_set fw) = listify user_settings h ! i
             \<and> lis_settings_seen (fw_lammps_input_set fw) = d'
             \<and> (map_of d ''data_file'' = None \<longrightarrow> fw_data_filename fw = PStr ''lammps.data'')
             \<and> (\<forall>x. map_of d ''data_file'' = Some x \<longrightarrow> fw_data_filename fw = x)
             \<and> (map_of d ''log_file'' = None \<longrightarrow>
                  d' = d @ [(''log_file'', PStr ''log.lammps'')]
                  \<and> fw_log_filename fw = PStr ''log.lammps'')
             \<and> (\<forall>x. map_of d ''log_file'' = Some x \<longrightarrow> d' = d \<and> fw_log_filename fw = x))"
proof -
  let ?vs = "listify user_settings h"
  let ?node = "\<lambda>v. settings_node name input_template_file lammps_data input_filename
                      is_forcefield lammps_cmd dump_filenames db_file v (dict_of h v)"
  from get_wf_truthy [OF assms, of input_template_file lammps_data input_filename
      is_forcefield lammps_cmd dump_filenames db_file name]
  obtain h' where c: "get_wf_from_input_template input_template_file user_settings lammps_data
             input_filename is_forcefield lammps_cmd dump_filenames db_file name h
           = (Inr (Workflow (map (\<lambda>v. FW (?node v)) ?vs) (Some name)), h')"
    and fin: "\<forall>v \<in> set ?vs. \<exists>a. as_dict h' v = Some (a, with_log_file (dict_of h v))"
    by blast
  have each: "\<exists>fw a d d'.
               map (\<lambda>v. FW (?node v)) ?vs ! i = FW fw
             \<and> as_dict h (?vs ! i) = Some (a, d)
             \<and> as_dict h' (?vs ! i) = Some (a, d')
             \<and> lis_user_settings (fw_lammps_input_set fw) = ?vs ! i
             \<and> lis_settings_seen (fw_lammps_input_set fw) = d'
             \<and> (map_of d ''data_file'' = None \<longrightarrow> fw_data_filename fw = PStr ''lammps.data'')
             \<and> (\<forall>x. map_of d ''data_file'' = Some x \<longrightarrow> fw_data_filename fw = x)
             \<and> (map_of d ''log_file'' = None \<longrightarrow>
                  d' = d @ [(''log_file'', PStr ''log.lammps'')]
                  \<and> fw_log_filename fw = PStr ''log.lammps'')
             \<and> (\<forall>x. map_of d ''log_file'' = Some x \<longrightarrow> d' = d \<and> fw_log_filename fw = x)"
    if i: "i < length ?vs" for i
  proof -
    let ?v = "?vs ! i"
    from i have mem: "?v \<in> set ?vs" by simp
    with assms(2) obtain a d where ad: "as_dict h ?v = Some (a, d)"
      by (auto simp: is_dict_def)
    then have dv: "dict_of h ?v = d" by (simp add: dict_of_def)
    from fin mem dv obtain a' where ad': "as_dict h' ?v = Some (a', with_log_file d)"
      by auto
    from as_dictD [OF ad] as_dictD [OF ad'] have "a' = a" by simp
    with ad' have ad'': "as_dict h' ?v = Some (a, with_log_file d)" by simp
    have n: "map (\<lambda>v. FW (?node v)) ?vs ! i = FW (?node ?v)"
      using i by simp
    show ?thesis
      apply (rule exI [of _ "?node ?v"])
      apply (rule exI [of _ a])
      apply (rule exI [of _ d])
      apply (rule exI [of _ "with_log_file d"])
      using n ad ad'' dv
      by (simp add: settings_node_def with_log_file_def dict_contains_def dict_get_def)
  qed
  show ?thesis
    unfolding c using each by simp
qed

theorem settings_defaults_resolved_in_place_witness:
  "\<exists>fw h'.
     template_wf_defaults (PStr ''in.template'') (PRef 0)
       [ODict [(''data_file'', PStr ''a.data'')]]
     = (Inr (Workflow [FW fw] (Some (PStr ''LAMMPS template Wflow''))), h')
   \<and> as_dict h' (PRef 0)
       = Some (0, [(''data_file'', PStr ''a.data''), (''log_file'', PStr ''log.lammps'')])
   \<and> fw_data_filename fw = PStr ''a.data''
   \<and> fw_log_filename fw = PStr ''log.lammps''"
proof -
  let ?d = "[(''data_file'', PStr ''a.data'')]"
  let ?h = "[ODict ?d]"
  have t: "truthy ?h (PRef 0)" by (simp add: deref_def)
  have ls: "listify (PRef 0) ?h = [PRef 0]"
    by (simp add: listify_def as_list_def deref_def)
  have ad: "as_dict ?h (PRef 0) = Some (0, ?d)"
    by (simp add: as_dict_def deref_def)
  have d: "\<forall>v \<in> set (listify (PRef 0) ?h). is_dict ?h v"
    unfolding ls by (simp add: is_dict_def ad)
  from settings_defaults_resolved_in_place [OF t d, of "PStr ''in.template''" PNone
      "PStr ''lammps.in''" "PBool False" "PStr ''lammps''" PNone PNone
      "PStr ''LAMMPS template Wflow''"]
  obtain fws h' where c: "template_wf_defaults (PStr ''in.template'') (PRef 0) ?h
      = (Inr (Workflow fws (Some (PStr ''LAMMPS template Wflow''))), h')"
    and len: "length fws = 1"
    and each: "\<exists>fw a d d'.
               fws ! 0 = FW fw
             \<and> as_dict ?h (PRef 0) = Some (a, d)
             \<and> as_dict h' (PRef 0) = Some (a, d')
             \<and> (\<forall>x. map_of d ''data_file'' = Some x \<longrightarrow> fw_data_filename fw = x)
             \<and> (map_of d ''log_file'' = None \<longrightarrow>
                  d' = d @ [(''log_file'', PStr ''log.lammps'')]
                  \<and> fw_log_filename fw = PStr ''log.lammps'')"
    unfolding template_wf_defaults_def ls by fastforce
  from each obtain fw a d d' where p: "fws ! 0 = FW fw"
      "as_dict ?h (PRef 0) = Some (a, d)" "as_dict h' (PRef 0) = Some (a, d')"
      "\<forall>x. map_of d ''data_file'' = Some x \<longrightarrow> fw_data_filename fw = x"
      "map_of d ''log_file'' = None \<longrightarrow>
         d' = d @ [(''log_file'', PStr ''log.lammps'')] \<and> fw_log_filename fw = PStr ''log.lammps''"
    by (elim exE conjE) (rule that)
  from p(2) ad have a: "a = 0" and dd: "d = ?d" by simp_all
  from len p(1) have fws: "fws = [FW fw]"
    by (cases fws) simp_all
  from p(4) dd have "fw_data_filename fw = PStr ''a.data''" by simp
  moreover from p(5) dd
  have "d' = ?d @ [(''log_file'', PStr ''log.lammps'')]"
    and "fw_log_filename fw = PStr ''log.lammps''" by simp_all
  ultimately show ?thesis
    using c p(3) a fws by simp
qed

text \<open>
  C8. Whatever the arguments, and whether the call returns or raises, every object
  the store held before the call is still at its address afterwards; a list is
  unchanged; a dictionary keeps the value of every key other than \<open>log_file\<close>, is
  unchanged when it already had \<open>log_file\<close>, and otherwise is either unchanged or has
  received the single item \<open>log_file = log.lammps\<close> at its end.
\<close>
theorem only_log_file_is_written:
  assumes "deref h a = Some ob"
  shows "(\<forall>xs. ob = OList xs \<longrightarrow>
            deref (snd (get_wf_from_input_template input_template_file user_settings
                          lammps_data input_filename is_forcefield lammps_cmd
                          dump_filenames db_file name h)) a = Some ob)
       \<and> (\<forall>d. ob = ODict d \<longrightarrow>
            (\<exists>d'. deref (snd (get_wf_from_input_template input_template_file user_settings
                                lammps_data input_filename is_forcefield lammps_cmd
                                dump_filenames db_file name h)) a = Some (ODict d')
                 \<and> (\<forall>k. k \<noteq> ''log_file'' \<longrightarrow> map_of d' k = map_of d k)
                 \<and> (dict_contains d ''log_file'' \<longrightarrow> d' = d)
                 \<and> (d' = d \<or> d' = d @ [(''log_file'', PStr ''log.lammps'')])))"
proof -
  let ?h' = "snd (get_wf_from_input_template input_template_file user_settings
                          lammps_data input_filename is_forcefield lammps_cmd
                          dump_filenames db_file name h)"
  have f: "frame h ?h'" by (rule get_wf_frame)
  from assms have a: "a < length h" and ob: "h ! a = ob"
    by (simp_all add: deref_def split: if_splits)
  from f a have a': "a < length ?h'" by (simp add: frame_def)
  from f a ob have s: "?h' ! a = ob \<or> log_file_added ob (?h' ! a)"
    unfolding frame_def by blast
  have da': "deref ?h' a = Some (?h' ! a)" using a' by (simp add: deref_def)
  from s show ?thesis
  proof
    assume "?h' ! a = ob"
    then show ?thesis unfolding da' by simp
  next
    assume "log_file_added ob (?h' ! a)"
    then show ?thesis unfolding da'
      by (auto simp: log_file_added_def dict_contains_def map_add_def
          split: pyobj.splits option.splits)
  qed
qed

theorem only_log_file_is_written_witness:
  "\<exists>d'. deref (snd (template_wf_defaults (PStr ''in.template'') (PRef 0)
                    [ODict [(''data_file'', PStr ''a.data'')]])) 0 = Some (ODict d')
       \<and> map_of d' ''data_file'' = Some (PStr ''a.data'')"
proof -
  let ?d = "[(''data_file'', PStr ''a.data'')]"
  have a: "deref [ODict ?d] 0 = Some (ODict ?d)" by (simp add: deref_def)
  from only_log_file_is_written [OF a, of "PStr ''in.template''" "PRef 0" PNone
      "PStr ''lammps.in''" "PBool False" "PStr ''lammps''" PNone PNone
      "PStr ''LAMMPS template Wflow''"]
  obtain d' where "deref (snd (template_wf_defaults (PStr ''in.template'') (PRef 0)
                    [ODict ?d])) 0 = Some (ODict d')"
    and "\<forall>k. k \<noteq> ''log_file'' \<longrightarrow> map_of d' k = map_of ?d k"
    unfolding template_wf_defaults_def by blast
  then show ?thesis by auto
qed

subsection \<open>The count comprehension\<close>

lemma subscript_packing_entry:
  "packing_entry h v \<Longrightarrow> subscript h v ''number'' = Inr (number_field h v)"
  by (auto simp: packing_entry_def subscript_def number_field_def dict_getitem_def
        dict_contains_def dict_get_def split: option.splits)

lemma numbers_of_packing_entries:
  "\<forall>v \<in> set vs. packing_entry h v \<Longrightarrow> numbers_of h vs = Inr (map (number_field h) vs)"
  by (induction vs) (simp_all add: subscript_packing_entry)

text \<open>
  C10. For a packing configuration that is a list of entries each carrying a
  \<open>number\<close> item, the derived count sequence is the \<open>number\<close> item of each entry, taken
  in order: it has the length of the packing configuration and its \<open>i\<close>-th element is
  the count of the \<open>i\<close>-th entry.
\<close>

theorem mols_number_preserves_order:
  assumes "deref h p = Some (OList entries)"
    and "\<forall>v \<in> set entries. packing_entry h v"
  shows "\<exists>ns. mols_number h (PRef p) = Inr ns
            \<and> length ns = length entries
            \<and> (\<forall>i < length entries. subscript h (entries ! i) ''number'' = Inr (ns ! i))"
  using assms
  by (simp add: mols_number_def py_iter_def numbers_of_packing_entries subscript_packing_entry)

theorem mols_number_preserves_order_witness:
  "mols_number [ODict [(''number'', PInt 3)], ODict [(''number'', PInt 10)],
                OList [PRef 0, PRef 1]] (PRef 2) = Inr [PInt 3, PInt 10]"
proof -
  let ?h = "[ODict [(''number'', PInt 3)], ODict [(''number'', PInt 10)],
             OList [PRef 0, PRef 1]]"
  have l: "deref ?h 2 = Some (OList [PRef 0, PRef 1])"
    by (simp add: deref_def)
  have e: "\<forall>v \<in> set [PRef 0, PRef 1]. packing_entry ?h v"
    by (simp add: packing_entry_def as_dict_def deref_def dict_contains_def)
  obtain ns where ns: "mols_number ?h (PRef 2) = Inr ns" "length ns = 2"
      "subscript ?h (PRef 0) ''number'' = Inr (ns ! 0)"
      "subscript ?h (PRef 1) ''number'' = Inr (ns ! 1)"
    using mols_number_preserves_order [OF l e] by force
  from ns(3,4) have "ns ! 0 = PInt 3" "ns ! 1 = PInt 10"
    by (simp_all add: subscript_def as_dict_def deref_def dict_getitem_def)
  with ns(2) have "ns = [PInt 3, PInt 10]"
    by (cases ns; cases "tl ns") auto
  with ns(1) show ?thesis by simp
qed

subsection \<open>Packing followed by simulation\<close>

lemma forcefield_unbound: "module_globals ''forcefield'' = None"
  by (simp add: module_globals_def)

lemma packmol_example_counts:
  "mols_number packmol_example_store (PRef 2) = Inr [PInt 3, PInt 10]"
  by (simp add: packmol_example_store_def mols_number_def py_iter_def deref_def
      subscript_def as_dict_def dict_getitem_def)

lemma get_packmol_wf_scope_cases:
  "get_packmol_wf_scope globals input_file user_settings molecules packing_config
           force_field box_size site_property tolerance filetype control_params lammps_cmd
           dump_filenames db_file name h
   = (case mols_number h packing_config of
        Inl e \<Rightarrow> Inl e
      | Inr ns \<Rightarrow>
          (case globals ''forcefield'' of
             None \<Rightarrow> Inl (NameError ''forcefield'')
           | Some ff \<Rightarrow>
               Inr (Workflow
                 [PyTuple [FW (PackmolFW molecules packing_config tolerance filetype
                           control_params True (''packed.'' @ filetype) site_property)],
                  FW (LammpsForceFieldFW input_file (''packed.'' @ filetype) molecules ns ff
                  user_settings site_property ''lammps.in'' lammps_cmd db_file
                  [PyTuple [FW (PackmolFW molecules packing_config tolerance filetype
                                  control_params True (''packed.'' @ filetype) site_property)]]
                  ''lammps.log'' dump_filenames)]
                 None)))"
  by (simp add: get_packmol_wf_scope_def LammpsForceFieldFW_call_def fw_lammps_keywords_def
      Let_def split: sum.splits option.splits)

text \<open>
  C2 states that every call returns a chain of two nodes. At the call below, with a
  well-formed packing configuration, the function raises \<open>NameError\<close> and returns no
  graph: the name \<open>forcefield\<close> is unbound. Were the name bound in the module, the
  graph would hold two entries of which the first is a tuple and not a node, and the
  parent of the simulation node would be that tuple: the assignment of \<open>fw_packmol\<close>
  ends in a comma.
\<close>
theorem packmol_wf_chain_not_built:
  "get_packmol_wf (PStr ''in.lammps'') PNone (PRef 3) (PRef 2) (PObj ''force_field'')
     (PObj ''box_size'') PNone (PInt 2) ''xyz'' PNone (PStr ''lammps'') PNone PNone
     (PStr ''LAMMPS packmol Wflow'') packmol_example_store
   = Inl (NameError ''forcefield'')
 \<and> get_packmol_wf_scope (module_globals(''forcefield'' \<mapsto> PObj ''force_field''))
     (PStr ''in.lammps'') PNone (PRef 3) (PRef 2) (PObj ''force_field'')
     (PObj ''box_size'') PNone (PInt 2) ''xyz'' PNone (PStr ''lammps'') PNone PNone
     (PStr ''LAMMPS packmol Wflow'') packmol_example_store
   = Inr (Workflow
       [PyTuple [FW (PackmolFW (PRef 3) (PRef 2) (PInt 2) ''xyz'' PNone True ''packed.xyz''
                       PNone)],
        FW (LammpsForceFieldFW (PStr ''in.lammps'') ''packed.xyz'' (PRef 3)
              [PInt 3, PInt 10] (PObj ''force_field'') PNone PNone ''lammps.in''
              (PStr ''lammps'') PNone
              [PyTuple [FW (PackmolFW (PRef 3) (PRef 2) (PInt 2) ''xyz'' PNone True
                              ''packed.xyz'' PNone)]]
              ''lammps.log'' PNone)]
       None)
 \<and> \<not> is_node (PyTuple [FW (PackmolFW (PRef 3) (PRef 2) (PInt 2) ''xyz'' PNone True
                             ''packed.xyz'' PNone)])"
  by (simp add: get_packmol_wf_def get_packmol_wf_scope_cases packmol_example_counts
      forcefield_unbound is_node_def)

text \<open>
  C3 states that every call fails with the undefined-name error. Line 74 runs before
  the name \<open>forcefield\<close> is read: a packing configuration whose entry has no
  \<open>number\<close> item raises \<open>KeyError\<close> there, and \<open>None\<close> as packing configuration
  raises \<open>TypeError\<close>.
\<close>

theorem packmol_wf_fails_before_name_lookup:
  "get_packmol_wf (PStr ''in.lammps'') PNone (PRef 2) (PRef 1) (PObj ''force_field'')
     (PObj ''box_size'') PNone (PInt 2) ''xyz'' PNone (PStr ''lammps'') PNone PNone
     (PStr ''LAMMPS packmol Wflow'')
     [ODict [], OList [PRef 0], OList [PObj ''molecule_a'']]
   = Inl (KeyError ''number'')
 \<and> get_packmol_wf (PStr ''in.lammps'') PNone (PRef 3) PNone (PObj ''force_field'')
     (PObj ''box_size'') PNone (PInt 2) ''xyz'' PNone (PStr ''lammps'') PNone PNone
     (PStr ''LAMMPS packmol Wflow'') packmol_example_store
   = Inl TypeError"
  by (simp add: get_packmol_wf_def get_packmol_wf_scope_cases mols_number_def py_iter_def
      deref_def subscript_def as_dict_def dict_getitem_def)

text \<open>
  C3, amended. The module binds no name \<open>forcefield\<close>, and no call of
  \<open>get_packmol_wf\<close> returns a graph. A call whose count comprehension on line 74
  raises ends with that exception; every other call, so every call with a packing
  configuration that is a sequence of mappings carrying \<open>number\<close>, reaches the
  construction of the force-field simulation node and raises \<open>NameError\<close> for
  \<open>forcefield\<close>.
\<close>

theorem get_packmol_wf_never_returns:
  "module_globals ''forcefield'' = None
 \<and> (\<forall>g. get_packmol_wf input_file user_settings molecules packing_config force_field
            box_size site_property tolerance filetype control_params lammps_cmd
            dump_filenames db_file name h \<noteq> Inr g)
 \<and> (\<forall>ns. mols_number h packing_config = Inr ns \<longrightarrow>
            get_packmol_wf input_file user_settings molecules packing_config force_field
              box_size site_property tolerance filetype control_params lammps_cmd
              dump_filenames db_file name h = Inl (NameError ''forcefield''))
 \<and> (\<forall>e. mols_number h packing_config = Inl e \<longrightarrow>
            get_packmol_wf input_file user_settings molecules packing_config force_field
              box_size site_property tolerance filetype control_params lammps_cmd
              dump_filenames db_file name h = Inl e)
 \<and> (\<forall>p entries. packing_config = PRef p \<and> deref h p = Some (OList entries)
            \<and> (\<forall>v \<in> set entries. packing_entry h v) \<longrightarrow>
            get_packmol_wf input_file user_settings molecules packing_config force_field
              box_size site_property tolerance filetype control_params lammps_cmd
              dump_filenames db_file name h = Inl (NameError ''forcefield''))"
proof -
  have u: "module_globals ''forcefield'' = None"
    by (rule forcefield_unbound)
  have c: "get_packmol_wf input_file user_settings molecules packing_config force_field
              box_size site_property tolerance filetype control_params lammps_cmd
              dump_filenames db_file name h
           = (case mols_number h packing_config of
                Inl e \<Rightarrow> Inl e
              | Inr ns \<Rightarrow> Inl (NameError ''forcefield''))"
    by (simp add: get_packmol_wf_def get_packmol_wf_scope_cases u split: sum.splits)
  have w: "mols_number h (PRef p) = Inr (map (number_field h) entries)"
    if "deref h p = Some (OList entries)" "\<forall>v \<in> set entries. packing_entry h v"
    for p entries
    using that by (simp add: mols_number_def py_iter_def numbers_of_packing_entries)
  have "\<forall>g. get_packmol_wf input_file user_settings molecules packing_config force_field
            box_size site_property tolerance filetype control_params lammps_cmd
            dump_filenames db_file name h \<noteq> Inr g"
    unfolding c by (simp split: sum.splits)
  moreover have "\<forall>ns. mols_number h packing_config = Inr ns \<longrightarrow>
            get_packmol_wf input_file user_settings molecules packing_config force_field
              box_size site_property tolerance filetype control_params lammps_cmd
              dump_filenames db_file name h = Inl (NameError ''forcefield'')"
    unfolding c by simp
  moreover have "\<forall>e. mols_number h packing_config = Inl e \<longrightarrow>
            get_packmol_wf input_file user_settings molecules packing_config force_field
              box_size site_property tolerance filetype control_params lammps_cmd
              dump_filenames db_file name h = Inl e"
    unfolding c by simp
  moreover have "\<forall>p entries. packing_config = PRef p \<and> deref h p = Some (OList entries)
            \<and> (\<forall>v \<in> set entries. packing_entry h v) \<longrightarrow>
            get_packmol_wf input_file user_settings molecules packing_config force_field
              box_size site_property tolerance filetype control_params lammps_cmd
              dump_filenames db_file name h = Inl (NameError ''forcefield'')"
    unfolding c using w by auto
  ultimately show ?thesis using u by blast
qed

text \<open>A well-formed packing configuration, and one whose entry has no count.\<close>

theorem get_packmol_wf_never_returns_witness:
  "mols_number packmol_example_store (PRef 2) = Inr [PInt 3, PInt 10]
 \<and> get_packmol_wf (PStr ''in.lammps'') PNone (PRef 3) (PRef 2) (PObj ''force_field'')
     (PObj ''box_size'') PNone (PInt 2) ''xyz'' PNone (PStr ''lammps'') PNone PNone
     (PStr ''LAMMPS packmol Wflow'') packmol_example_store
   = Inl (NameError ''forcefield'')
 \<and> mols_number [ODict [], OList [PRef 0], OList [PObj ''molecule_a'']] (PRef 1)
   = Inl (KeyError ''number'')
 \<and> get_packmol_wf (PStr ''in.lammps'') PNone (PRef 2) (PRef 1) (PObj ''force_field'')
     (PObj ''box_size'') PNone (PInt 2) ''xyz'' PNone (PStr ''lammps'') PNone PNone
     (PStr ''LAMMPS packmol Wflow'')
     [ODict [], OList [PRef 0], OList [PObj ''molecule_a'']]
   = Inl (KeyError ''number'')"
proof -
  let ?bad = "[ODict [], OList [PRef 0], OList [PObj ''molecule_a'']]"
  have m: "mols_number packmol_example_store (PRef 2) = Inr [PInt 3, PInt 10]"
    by (rule packmol_example_counts)
  have b: "mols_number ?bad (PRef 1) = Inl (KeyError ''number'')"
    by (simp add: mols_number_def py_iter_def deref_def subscript_def as_dict_def
        dict_getitem_def)
  from get_packmol_wf_never_returns [of "PStr ''in.lammps''" PNone "PRef 3" "PRef 2"
      "PObj ''force_field''" "PObj ''box_size''" PNone "PInt 2" "''xyz''" PNone
      "PStr ''lammps''" PNone PNone "PStr ''LAMMPS packmol Wflow''" packmol_example_store]
  have "\<forall>ns. mols_number packmol_example_store (PRef 2) = Inr ns \<longrightarrow>
     get_packmol_wf (PStr ''in.lammps'') PNone (PRef 3) (PRef 2) (PObj ''force_field'')
     (PObj ''box_size'') PNone (PInt 2) ''xyz'' PNone (PStr ''lammps'') PNone PNone
     (PStr ''LAMMPS packmol Wflow'') packmol_example_store
   = Inl (NameError ''forcefield'')"
    by (elim conjE)
  with m have good: "get_packmol_wf (PStr ''in.lammps'') PNone (PRef 3) (PRef 2)
     (PObj ''force_field'') (PObj ''box_size'') PNone (PInt 2) ''xyz'' PNone
     (PStr ''lammps'') PNone PNone (PStr ''LAMMPS packmol Wflow'') packmol_example_store
   = Inl (NameError ''forcefield'')"
    by blast
  from get_packmol_wf_never_returns [of "PStr ''in.lammps''" PNone "PRef 2" "PRef 1"
      "PObj ''force_field''" "PObj ''box_size''" PNone "PInt 2" "''xyz''" PNone
      "PStr ''lammps''" PNone PNone "PStr ''LAMMPS packmol Wflow''" ?bad]
  have "\<forall>e. mols_number ?bad (PRef 1) = Inl e \<longrightarrow>
     get_packmol_wf (PStr ''in.lammps'') PNone (PRef 2) (PRef 1) (PObj ''force_field'')
     (PObj ''box_size'') PNone (PInt 2) ''xyz'' PNone (PStr ''lammps'') PNone PNone
     (PStr ''LAMMPS packmol Wflow'') ?bad = Inl e"
    by (elim conjE)
  with b have bad: "get_packmol_wf (PStr ''in.lammps'') PNone (PRef 2) (PRef 1)
     (PObj ''force_field'') (PObj ''box_size'') PNone (PInt 2) ''xyz'' PNone
     (PStr ''lammps'') PNone PNone (PStr ''LAMMPS packmol Wflow'') ?bad
   = Inl (KeyError ''number'')"
    by blast
  from m good b bad show ?thesis by blast
qed



end
